theory Spec2Isabelle
  imports Main "HOL-Library.Word"
begin

section \<open>The vochain indexer (vochain/indexer/indexer.go)\<close>

text \<open>
  A shallow embedding of the indexer: the \<open>Indexer\<close> struct is a record, every method
  takes the indexer and returns the indexer it leaves behind. A Go \<open>string\<close> and a
  \<open>[]byte\<close> are both byte sequences, converted into each other without change
  (\<open>string(vote.ProcessID)\<close>), so both are \<open>string\<close> here. \<open>uint32\<close> is \<open>32 word\<close>,
  \<open>int\<close>, \<open>int64\<close> and \<open>uint64\<close> are \<open>64 word\<close> (read signed or unsigned as the source
  declares them), \<open>*big.Int\<close> is \<open>int option\<close> (\<open>None\<close> is the nil pointer).
\<close>

type_synonym bytes = string

subsection \<open>Outcomes: return, panic, or a lock that is never granted\<close>

datatype 'a result = Ok 'a | Panic string | Blocked

definition rbind :: "'a result \<Rightarrow> ('a \<Rightarrow> 'b result) \<Rightarrow> 'b result" where
  "rbind m f = (case m of Ok x \<Rightarrow> f x | Panic s \<Rightarrow> Panic s | Blocked \<Rightarrow> Blocked)"

subsection \<open>The logger\<close>

datatype logLevel = DebugLvl | InfoLvl | WarnLvl | ErrorLvl

type_synonym logEntry = "logLevel \<times> string"

subsection \<open>Ballots and the chain application\<close>

text \<open>\<open>state.Vote\<close>, with the fields the indexer reads.\<close>

record Vote =
  ProcessID :: bytes
  Nullifier :: bytes
  Height :: "32 word"
  VotePackage :: bytes
  Weight :: "int option"
  Overwrites :: "32 word"
  VoterID :: bytes
  EncryptionKeyIndexes :: "32 word list"

text \<open>\<open>models.StateDBVote\<close>: the ballot as the chain state stores it. The overwrite
  count is an optional protobuf field; its getter gives 0 when it is absent.\<close>

record StateDBVote =
  sdbVotePackage :: bytes
  sdbWeight :: bytes
  sdbOverwriteCount :: "32 word option"

definition GetOverwriteCount :: "StateDBVote \<Rightarrow> 32 word" where
  "GetOverwriteCount pv = (case sdbOverwriteCount pv of None \<Rightarrow> 0 | Some c \<Rightarrow> c)"

text \<open>\<open>models.Process\<close> of the chain state: only \<open>KeyIndex\<close> is read here.\<close>

record StateProcess =
  KeyIndex :: "32 word option"

text \<open>
  The chain application the indexer consumes (\<open>idx.App\<close>). \<open>StateVote\<close> is
  \<open>App.State.Vote(pid, nullifier, true)\<close>: \<open>Inl err\<close> is the Go result \<open>(nil, err)\<close>,
  \<open>Inr None\<close> is \<open>(nil, nil)\<close> and \<open>Inr (Some v)\<close> is \<open>(v, nil)\<close>.
\<close>

record App =
  IsSynced :: bool
  AppHeight :: "32 word"
  Timestamp :: "64 word"
  StateProcess :: "bytes \<Rightarrow> string + StateProcess"
  StateVote :: "bytes \<Rightarrow> bytes \<Rightarrow> string + StateDBVote option"

subsection \<open>The store: one writer connection, transactions, prepared queries\<close>

text \<open>
  The write queries of \<open>indexerdb\<close> that the event sink issues, with the parameters the
  source passes. JSON columns are kept decoded (the weight as the integer, the key
  indexes as the list); \<open>time.Unix(t, 0)\<close> is kept as the seconds \<open>t\<close>.
\<close>

datatype stmt =
    CreateVote bytes bytes "64 word" "64 word" int "64 word" bytes "32 word list" string
  | CreateAccount bytes "64 word" "64 word"
  | CreateTokenTransfer bytes "64 word" bytes bytes "64 word" "64 word"
  | CreateTokenFee bytes string "64 word" string "64 word" "64 word"
  | CreateProcess bytes
  | CreateTransaction bytes "64 word" "64 word"

text \<open>
  \<open>*sql.Tx\<close>: \<open>pending\<close> is the store as the transaction sees it (the committed rows
  and its own writes), \<open>rollbackErr\<close> is what \<open>tx.Rollback()\<close> will report.
  \<open>*sql.DB\<close>: \<open>committed\<close> is the persisted store, written as the sequence of the
  statements that reached it; \<open>beginErr\<close> and \<open>stmtErr\<close> are what the driver answers
  to \<open>Begin()\<close> and to a statement.
\<close>

record sqlTx =
  txId :: nat
  pending :: "stmt list"
  rollbackErr :: "string option"

record sqlDB =
  committed :: "stmt list"
  nextTxId :: nat
  beginErr :: "string option"
  stmtErr :: "stmt \<Rightarrow> string option"
  txRollbackErr :: "string option"

definition Begin :: "sqlDB \<Rightarrow> string + (sqlTx \<times> sqlDB)" where
  "Begin db =
     (case beginErr db of
        Some e \<Rightarrow> Inl e
      | None \<Rightarrow>
          Inr (\<lparr>txId = nextTxId db, pending = committed db, rollbackErr = txRollbackErr db\<rparr>,
               db\<lparr>nextTxId := Suc (nextTxId db)\<rparr>))"

text \<open>
  \<open>*indexerdb.Queries\<close>: the prepared statements, bound either to the connection
  (as \<open>indexerdb.Prepare\<close> leaves them) or to one transaction (\<open>WithTx\<close>).
\<close>

datatype binding = OnConn | OnTx nat

record Queries =
  boundTo :: binding

definition WithTx :: "Queries \<Rightarrow> sqlTx \<Rightarrow> Queries" where
  "WithTx q tx = q\<lparr>boundTo := OnTx (txId tx)\<rparr>"

subsection \<open>The read-only queries\<close>

text \<open>
  The rows the read-only queries of \<open>indexerdb\<close> return, with the columns the source
  reads. Every row of a search carries the total count of matching rows.
\<close>

record SearchTokenFeesRow =
  tfCost :: "64 word"
  tfFromAccount :: bytes
  tfTxType :: string
  tfBlockHeight :: "64 word"
  tfReference :: string
  tfSpendTime :: "64 word"
  tfTotalCount :: "64 word"

record SearchTokenTransfersRow =
  ttAmount :: "64 word"
  ttFromAccount :: bytes
  ttToAccount :: bytes
  ttBlockHeight :: "64 word"
  ttTxHash :: bytes
  ttTransferTime :: "64 word"
  ttTotalCount :: "64 word"

record SearchAccountsRow =
  acAccount :: bytes
  acBalance :: "64 word"
  acNonce :: "64 word"
  acTotalCount :: "64 word"

record TransactionRow =
  trHash :: bytes

text \<open>
  \<open>idx.readOnlyQuery\<close>: each query answers with an error or with rows. The arguments
  are the fields of the source's parameter structs, in the source's order:
  \<open>SearchTokenFees\<close> takes Limit, Offset, TxType, Reference, FromAccount;
  \<open>SearchTokenTransfers\<close> takes Limit, Offset, FromOrToAccount, FromAccount, ToAccount;
  \<open>SearchAccounts\<close> takes Limit, Offset, AccountIDSubstr;
  \<open>GetTransactionByHeightAndIndex\<close> takes BlockHeight, BlockIndex.
\<close>

record ReadQueries =
  SearchTokenFees ::
    "64 word \<Rightarrow> 64 word \<Rightarrow> string \<Rightarrow> string \<Rightarrow> string \<Rightarrow> string + SearchTokenFeesRow list"
  SearchTokenTransfers ::
    "64 word \<Rightarrow> 64 word \<Rightarrow> string \<Rightarrow> string \<Rightarrow> string \<Rightarrow> string + SearchTokenTransfersRow list"
  SearchAccounts :: "64 word \<Rightarrow> 64 word \<Rightarrow> string \<Rightarrow> string + SearchAccountsRow list"
  GetTransactionByHeightAndIndex :: "64 word \<Rightarrow> 64 word \<Rightarrow> string + TransactionRow"

subsection \<open>The indexer\<close>

record Indexer =
  App :: App
  votePool :: "bytes \<rightharpoonup> (bytes \<rightharpoonup> Vote)"
  dbPath :: string
  readOnlyDB :: "sqlDB option"
  readWriteDB :: "sqlDB option"
  readOnlyQuery :: "ReadQueries option"
  blockMu :: bool
  blockTx :: "sqlTx option"
  blockQueries :: "Queries option"
  blockUpdateProcs :: "bytes \<rightharpoonup> bool"
  blockUpdateProcVoteCounts :: "bytes \<rightharpoonup> bool"
  liveResultsProcs :: "bytes set"
  ignoreLiveResults :: bool
  logs :: "logEntry list"

definition logw :: "logLevel \<Rightarrow> string \<Rightarrow> Indexer \<Rightarrow> Indexer" where
  "logw lvl msg idx = idx\<lparr>logs := logs idx @ [(lvl, msg)]\<rparr>"

text \<open>\<open>if err != nil { log.Errorw(err, msg) }\<close>\<close>

definition logErr :: "string option \<Rightarrow> string \<Rightarrow> Indexer \<Rightarrow> Indexer" where
  "logErr err msg idx = (case err of None \<Rightarrow> idx | Some e \<Rightarrow> logw ErrorLvl msg idx)"

text \<open>
  \<open>idx.blockMu.Lock(); defer idx.blockMu.Unlock()\<close> around a body. The mutex is not
  re-entrant: locking it while it is held never returns.
\<close>

definition withLock :: "(Indexer \<Rightarrow> Indexer result) \<Rightarrow> Indexer \<Rightarrow> Indexer result" where
  "withLock body idx =
     (if blockMu idx then Blocked
      else rbind (body (idx\<lparr>blockMu := True\<rparr>)) (\<lambda>idx'. Ok (idx'\<lparr>blockMu := False\<rparr>)))"

text \<open>
  \<open>blockTxQueries\<close>: \<open>TryLock\<close> succeeds exactly when the mutex is free, and then the
  function panics. With the mutex held and no transaction open, \<open>Begin\<close> is called on
  the writer connection (a nil connection is a nil dereference), its error is a panic,
  and the prepared queries are rebound to the new transaction.
\<close>

definition blockTxQueries :: "Indexer \<Rightarrow> (Queries \<times> Indexer) result" where
  "blockTxQueries idx =
     (if \<not> blockMu idx
      then Panic ''Indexer.blockTxQueries was called without locking Indexer.lockPool''
      else
        (case blockTx idx of
           None \<Rightarrow>
             (case readWriteDB idx of
                None \<Rightarrow> Panic ''invalid memory address or nil pointer dereference''
              | Some db \<Rightarrow>
                  (case Begin db of
                     Inl e \<Rightarrow> Panic e
                   | Inr (tx, db') \<Rightarrow>
                       (case blockQueries idx of
                          None \<Rightarrow> Panic ''invalid memory address or nil pointer dereference''
                        | Some q \<Rightarrow>
                            Ok (WithTx q tx,
                                idx\<lparr>readWriteDB := Some db', blockTx := Some tx,
                                    blockQueries := Some (WithTx q tx)\<rparr>))))
         | Some tx \<Rightarrow>
             (case blockQueries idx of
                None \<Rightarrow> Panic ''invalid memory address or nil pointer dereference''
              | Some q \<Rightarrow> Ok (q, idx))))"

text \<open>
  Running a write query through a handle. Bound to the open block transaction, the
  statement changes what the transaction sees; bound to a transaction that is no
  longer open, it fails; bound to the connection, it is committed at once.
\<close>

definition execWrite :: "Queries \<Rightarrow> stmt \<Rightarrow> Indexer \<Rightarrow> Indexer \<times> string option" where
  "execWrite q s idx =
     (case readWriteDB idx of
        None \<Rightarrow> (idx, Some ''sql: database is closed'')
      | Some db \<Rightarrow>
          (case boundTo q of
             OnConn \<Rightarrow>
               (case stmtErr db s of
                  Some e \<Rightarrow> (idx, Some e)
                | None \<Rightarrow> (idx\<lparr>readWriteDB := Some (db\<lparr>committed := committed db @ [s]\<rparr>)\<rparr>, None))
           | OnTx i \<Rightarrow>
               (case blockTx idx of
                  None \<Rightarrow> (idx, Some ''sql: transaction has already been committed or rolled back'')
                | Some tx \<Rightarrow>
                    if txId tx \<noteq> i
                    then (idx, Some ''sql: transaction has already been committed or rolled back'')
                    else
                      (case stmtErr db s of
                         Some e \<Rightarrow> (idx, Some e)
                       | None \<Rightarrow> (idx\<lparr>blockTx := Some (tx\<lparr>pending := pending tx @ [s]\<rparr>)\<rparr>, None)))))"

subsection \<open>OnVote\<close>

text \<open>Modelled from the spec: \<open>isProcessLiveResults\<close> (vochain/indexer/process.go) is
  not under src/; the spec's live-results process set is a set of process ids, and
  the test is membership.\<close>

definition isProcessLiveResults :: "Indexer \<Rightarrow> bytes \<Rightarrow> bool" where
  "isProcessLiveResults idx pid = (pid \<in> liveResultsProcs idx)"

text \<open>\<open>nonNullBytes\<close> turns a nil slice into an empty one: both are the empty string.\<close>

definition nonNullBytes :: "bytes \<Rightarrow> bytes" where
  "nonNullBytes p = p"

text \<open>The first half of \<open>OnVote\<close>: the vote pool, touched before the lock is taken.\<close>

definition poolVote :: "Vote \<Rightarrow> Indexer \<Rightarrow> Indexer" where
  "poolVote vote idx =
     (let pid = ProcessID vote in
      if \<not> ignoreLiveResults idx \<and> isProcessLiveResults idx (ProcessID vote) then
        (let nullifier = Nullifier vote;
             byNullifier = (case votePool idx pid of None \<Rightarrow> Map.empty | Some m \<Rightarrow> m);
             prevVote = byNullifier nullifier;
             idx1 = (case prevVote of
                       None \<Rightarrow> idx
                     | Some pv \<Rightarrow>
                         if Overwrites vote < Overwrites pv
                         then logw WarnLvl ''OnVote called with a lower overwrite value than before'' idx
                         else idx)
         in idx1\<lparr>votePool := (votePool idx1)(pid \<mapsto> byNullifier(nullifier \<mapsto> vote))\<rparr>)
      else idx)"

definition OnVote :: "Vote \<Rightarrow> 32 word \<Rightarrow> Indexer \<Rightarrow> Indexer result" where
  "OnVote vote txIndex idx0 =
     (let pid = ProcessID vote;
          idx = poolVote vote idx0;
          weight = (case Weight vote of None \<Rightarrow> 1 | Some w \<Rightarrow> w);
          keyIndexes = EncryptionKeyIndexes vote
      in withLock (\<lambda>idx.
           rbind (blockTxQueries idx) (\<lambda>(queries, idx).
             (case execWrite queries
                     (CreateVote (Nullifier vote) (ProcessID vote) (ucast (Height vote))
                        (scast txIndex) weight (ucast (Overwrites vote))
                        (nonNullBytes (VoterID vote)) keyIndexes (VotePackage vote)) idx of
                (idx, err) \<Rightarrow>
                  Ok ((logErr err ''could not index vote'' idx)
                        \<lparr>blockUpdateProcVoteCounts := (blockUpdateProcVoteCounts idx)(pid \<mapsto> True)\<rparr>)))) idx)"

subsection \<open>The other event-sink callbacks\<close>

text \<open>\<open>state.Account\<close> and \<open>vochaintx.TokenTransfer\<close>, with the fields the indexer reads.\<close>

record Account =
  Balance :: "64 word"
  Nonce :: "32 word"

record TokenTransfer =
  TxHash :: bytes
  FromAddress :: bytes
  ToAddress :: bytes
  Amount :: "64 word"

text \<open>Modelled from the spec: \<open>newEmptyProcess\<close> (vochain/indexer/process.go) is not
  under src/; the spec's \<open>onProcess\<close> inserts a new Process row, and every callback
  writes its rows within the open block transaction, under the block lock.\<close>

definition newEmptyProcess :: "bytes \<Rightarrow> Indexer \<Rightarrow> (Indexer \<times> string option) result" where
  "newEmptyProcess pid idx =
     (if blockMu idx then Blocked
      else rbind (blockTxQueries (idx\<lparr>blockMu := True\<rparr>)) (\<lambda>(queries, idx).
             (case execWrite queries (CreateProcess pid) idx of
                (idx, err) \<Rightarrow> Ok (idx\<lparr>blockMu := False\<rparr>, err))))"

text \<open>Modelled from the spec: \<open>addProcessToLiveResults\<close> (vochain/indexer/process.go)
  is not under src/; the spec's \<open>onProcess\<close> marks the process as live-results.\<close>

definition addProcessToLiveResults :: "bytes \<Rightarrow> Indexer \<Rightarrow> Indexer" where
  "addProcessToLiveResults pid idx = idx\<lparr>liveResultsProcs := insert pid (liveResultsProcs idx)\<rparr>"

definition OnProcess :: "bytes \<Rightarrow> Indexer \<Rightarrow> Indexer result" where
  "OnProcess pid idx =
     rbind (newEmptyProcess pid idx) (\<lambda>(idx, err).
       (let idx = logErr err ''commit: cannot create new empty process'' idx;
            idx = (if IsSynced (App idx) then addProcessToLiveResults pid idx else idx)
        in Ok (logw DebugLvl ''new process'' idx)))"

text \<open>\<open>idx.blockUpdateProcs[string(pid)] = true\<close> under the lock: the body of \<open>OnCancel\<close>,
  \<open>OnProcessKeys\<close>, \<open>OnProcessStatusChange\<close>, \<open>OnProcessDurationChange\<close>,
  \<open>OnProcessResults\<close> and \<open>OnCensusUpdate\<close>.\<close>

definition markUpdateProc :: "bytes \<Rightarrow> Indexer \<Rightarrow> Indexer" where
  "markUpdateProc pid idx = idx\<lparr>blockUpdateProcs := (blockUpdateProcs idx)(pid \<mapsto> True)\<rparr>"

definition OnCancel :: "bytes \<Rightarrow> Indexer \<Rightarrow> Indexer result" where
  "OnCancel pid = withLock (\<lambda>idx. Ok (markUpdateProc pid idx))"

definition OnProcessKeys :: "bytes \<Rightarrow> Indexer \<Rightarrow> Indexer result" where
  "OnProcessKeys pid = withLock (\<lambda>idx. Ok (markUpdateProc pid idx))"

definition OnProcessStatusChange :: "bytes \<Rightarrow> Indexer \<Rightarrow> Indexer result" where
  "OnProcessStatusChange pid = withLock (\<lambda>idx. Ok (markUpdateProc pid idx))"

definition OnProcessDurationChange :: "bytes \<Rightarrow> Indexer \<Rightarrow> Indexer result" where
  "OnProcessDurationChange pid = withLock (\<lambda>idx. Ok (markUpdateProc pid idx))"

definition OnRevealKeys :: "bytes \<Rightarrow> Indexer \<Rightarrow> Indexer result" where
  "OnRevealKeys pid idx =
     (case StateProcess (App idx) pid of
        Inl err \<Rightarrow> Ok (logw ErrorLvl ''cannot fetch process from state'' idx)
      | Inr p \<Rightarrow>
          (case KeyIndex p of
             None \<Rightarrow> Ok (logw ErrorLvl ''keyindex is nil'' idx)
           | Some k \<Rightarrow> withLock (\<lambda>idx. Ok (markUpdateProc pid idx)) idx))"

definition OnProcessResults :: "bytes \<Rightarrow> Indexer \<Rightarrow> Indexer result" where
  "OnProcessResults pid = withLock (\<lambda>idx. Ok (markUpdateProc pid idx))"

definition OnProcessesStart :: "bytes list \<Rightarrow> Indexer \<Rightarrow> Indexer result" where
  "OnProcessesStart pids = withLock (\<lambda>idx. Ok (foldl (\<lambda>idx pid. markUpdateProc pid idx) idx pids))"

definition OnSetAccount :: "bytes \<Rightarrow> Account \<Rightarrow> Indexer \<Rightarrow> Indexer result" where
  "OnSetAccount accountAddress account =
     withLock (\<lambda>idx.
       rbind (blockTxQueries idx) (\<lambda>(queries, idx).
         (case execWrite queries
                 (CreateAccount accountAddress (Balance account) (ucast (Nonce account))) idx of
            (idx, err) \<Rightarrow> Ok (logErr err ''cannot index new account'' idx))))"

definition OnTransferTokens :: "TokenTransfer \<Rightarrow> Indexer \<Rightarrow> Indexer result" where
  "OnTransferTokens tx =
     withLock (\<lambda>idx.
       rbind (blockTxQueries idx) (\<lambda>(queries, idx).
         (case execWrite queries
                 (CreateTokenTransfer (TxHash tx) (ucast (AppHeight (App idx))) (FromAddress tx)
                    (ToAddress tx) (Amount tx) (Timestamp (App idx))) idx of
            (idx, err) \<Rightarrow> Ok (logErr err ''cannot index new transaction'' idx))))"

definition OnCensusUpdate :: "bytes \<Rightarrow> Indexer \<Rightarrow> Indexer result" where
  "OnCensusUpdate pid = withLock (\<lambda>idx. Ok (markUpdateProc pid idx))"

text \<open>\<open>strings.ToLower\<close> on the name of a transaction type, which is ASCII.\<close>

definition toLowerChar :: "char \<Rightarrow> char" where
  "toLowerChar c =
     (if 65 \<le> (of_char c :: nat) \<and> (of_char c :: nat) \<le> 90 then char_of (of_char c + 32 :: nat) else c)"

definition ToLower :: "string \<Rightarrow> string" where
  "ToLower s = map toLowerChar s"

text \<open>\<open>OnSpendTokens\<close>; \<open>txType\<close> is the name \<open>txType.String()\<close> of the transaction type.\<close>

definition OnSpendTokens :: "bytes \<Rightarrow> string \<Rightarrow> 64 word \<Rightarrow> string \<Rightarrow> Indexer \<Rightarrow> Indexer result" where
  "OnSpendTokens address txType cost reference =
     withLock (\<lambda>idx.
       rbind (blockTxQueries idx) (\<lambda>(queries, idx).
         (case execWrite queries
                 (CreateTokenFee address (ToLower txType) cost reference (Timestamp (App idx))
                    (ucast (AppHeight (App idx)))) idx of
            (idx, err) \<Rightarrow> Ok (logErr err ''cannot index new token spending'' idx))))"

subsection \<open>Rollback\<close>

definition Rollback :: "Indexer \<Rightarrow> Indexer result" where
  "Rollback =
     withLock (\<lambda>idx.
       (let idx = idx\<lparr>votePool := Map.empty, blockUpdateProcs := Map.empty,
                      blockUpdateProcVoteCounts := Map.empty\<rparr>
        in case blockTx idx of
             None \<Rightarrow> Ok idx
           | Some tx \<Rightarrow> Ok ((logErr (rollbackErr tx) ''could not rollback tx'' idx)\<lparr>blockTx := None\<rparr>)))"

text \<open>
  The calls the chain application makes on the event sink, and a block's sequence of
  them, run one after the other; a panic or a lock that is never granted ends the
  sequence.
\<close>

datatype event =
    EvProcess bytes
  | EvVote Vote "32 word"
  | EvCancel bytes
  | EvProcessKeys bytes
  | EvProcessStatusChange bytes
  | EvProcessDurationChange bytes
  | EvRevealKeys bytes
  | EvProcessResults bytes
  | EvProcessesStart "bytes list"
  | EvSetAccount bytes Account
  | EvTransferTokens TokenTransfer
  | EvCensusUpdate bytes
  | EvSpendTokens bytes string "64 word" string

fun eventSink :: "event \<Rightarrow> Indexer \<Rightarrow> Indexer result" where
  "eventSink (EvProcess pid) = OnProcess pid"
| "eventSink (EvVote vote txIndex) = OnVote vote txIndex"
| "eventSink (EvCancel pid) = OnCancel pid"
| "eventSink (EvProcessKeys pid) = OnProcessKeys pid"
| "eventSink (EvProcessStatusChange pid) = OnProcessStatusChange pid"
| "eventSink (EvProcessDurationChange pid) = OnProcessDurationChange pid"
| "eventSink (EvRevealKeys pid) = OnRevealKeys pid"
| "eventSink (EvProcessResults pid) = OnProcessResults pid"
| "eventSink (EvProcessesStart pids) = OnProcessesStart pids"
| "eventSink (EvSetAccount a acc) = OnSetAccount a acc"
| "eventSink (EvTransferTokens tx) = OnTransferTokens tx"
| "eventSink (EvCensusUpdate pid) = OnCensusUpdate pid"
| "eventSink (EvSpendTokens a t c r) = OnSpendTokens a t c r"

fun eventSinks :: "event list \<Rightarrow> Indexer \<Rightarrow> Indexer result" where
  "eventSinks [] idx = Ok idx"
| "eventSinks (e # es) idx = rbind (eventSink e idx) (eventSinks es)"

text \<open>The persisted state: the committed content of the store, if it is open.\<close>

definition persisted :: "Indexer \<Rightarrow> stmt list option" where
  "persisted idx = map_option committed (readWriteDB idx)"

subsection \<open>Commit: the live votes of one process\<close>

text \<open>
  \<open>models.ProcessVoteOptions\<close>, \<open>models.EnvelopeType\<close>, \<open>indexertypes.Process\<close> and
  \<open>results.Results\<close>, with the fields that the tally of a ballot depends on.
\<close>

record ProcessVoteOptions =
  MaxCount :: "32 word"
  MaxValue :: "32 word"
  MaxTotalCost :: "32 word"
  CostExponent :: "32 word"

record EnvelopeType =
  EncryptedVotes :: bool
  UniqueValues :: bool

record Process =
  ID :: bytes
  Envelope :: EnvelopeType
  VoteOpts :: ProcessVoteOptions
  ResultsVotes :: "int list list"
  ResultsWeight :: int
  ResultsBlockHeight :: "32 word"

record Results =
  rVotes :: "int list list"
  rWeight :: int
  rVoteOpts :: ProcessVoteOptions
  rEnvelopeType :: EnvelopeType

text \<open>\<open>new(big.Int).SetBytes(b)\<close>: the bytes as a big-endian unsigned integer.\<close>

definition SetBytes :: "bytes \<Rightarrow> int" where
  "SetBytes b = foldl (\<lambda>a c. a * 256 + of_char c) 0 b"

text \<open>
  What the loop over the pooled ballots of one process carries: the two accumulators,
  the two counters and the log.
\<close>

record liveTally =
  addedResults :: Results
  subtractedResults :: Results
  newVotes :: int
  overwritedVotes :: int
  tallyLog :: "logEntry list"

definition tlog :: "logLevel \<Rightarrow> string \<Rightarrow> liveTally \<Rightarrow> liveTally" where
  "tlog lvl msg t = t\<lparr>tallyLog := tallyLog t @ [(lvl, msg)]\<rparr>"

text \<open>\<open>&results.Results{Weight: 0, VoteOpts: proc.VoteOpts, EnvelopeType: proc.Envelope}\<close>\<close>

definition newResults :: "Process \<Rightarrow> Results" where
  "newResults proc = \<lparr>rVotes = [], rWeight = 0, rVoteOpts = VoteOpts proc, rEnvelopeType = Envelope proc\<rparr>"

text \<open>
  \<open>idx.addLiveVote(proc, package, weight, results)\<close> changes \<open>results\<close> in place and
  returns an error or nil: a function from the accumulator to the accumulator it
  leaves and the error. The loop takes it as \<open>alv\<close>.
\<close>

type_synonym addLiveVoteFn = "Process \<Rightarrow> bytes \<Rightarrow> int option \<Rightarrow> Results \<Rightarrow> Results \<times> string option"

text \<open>The end of the loop body: \<open>// add the new vote to results\<close>.\<close>

definition addNewVote :: "addLiveVoteFn \<Rightarrow> Process \<Rightarrow> Vote \<Rightarrow> liveTally \<Rightarrow> liveTally" where
  "addNewVote alv proc v t =
     (case alv proc (VotePackage v) (Weight v) (addedResults t) of
        (added, Some err) \<Rightarrow> tlog ErrorLvl ''vote cannot be added to results'' (t\<lparr>addedResults := added\<rparr>)
      | (added, None) \<Rightarrow> t\<lparr>addedResults := added\<rparr>)"

text \<open>The body of \<open>for _, v := range votesByNullifier\<close> in \<open>Commit\<close>; every
  \<open>continue\<close> returns the tally as it stands.\<close>

definition commitVote :: "addLiveVoteFn \<Rightarrow> App \<Rightarrow> Process \<Rightarrow> Vote \<Rightarrow> liveTally \<Rightarrow> liveTally" where
  "commitVote alv app proc v t0 =
     (case (if 0 < Overwrites v
            then (case StateVote app (ProcessID v) (Nullifier v) of
                    Inl err \<Rightarrow> (None, tlog WarnLvl ''cannot get previous vote'' t0)
                  | Inr pv \<Rightarrow> (pv, t0))
            else (None, t0)) of
        (Some previousVote, t1) \<Rightarrow>
          (let t = tlog DebugLvl ''vote overwrite, previous vote'' t1 in
           if Overwrites v \<le> GetOverwriteCount previousVote
           then tlog ErrorLvl ''check vote overwrite failed'' t
           else
             (case alv proc (sdbVotePackage previousVote) (Some (SetBytes (sdbWeight previousVote)))
                     (subtractedResults t) of
                (subtracted, Some err) \<Rightarrow>
                  tlog ErrorLvl ''vote cannot be added to subtracted results''
                    (t\<lparr>subtractedResults := subtracted\<rparr>)
              | (subtracted, None) \<Rightarrow>
                  addNewVote alv proc v
                    (t\<lparr>subtractedResults := subtracted, overwritedVotes := overwritedVotes t + 1\<rparr>)))
      | (None, t1) \<Rightarrow> addNewVote alv proc v (t1\<lparr>newVotes := newVotes t1 + 1\<rparr>))"

text \<open>The loop: the pooled ballots of the process in the order the map yields them
  (``the order here isn't deterministic''), from the two fresh accumulators.\<close>

definition commitVotes :: "addLiveVoteFn \<Rightarrow> App \<Rightarrow> Process \<Rightarrow> Vote list \<Rightarrow> liveTally \<Rightarrow> liveTally" where
  "commitVotes alv app proc votesByNullifier t =
     foldl (\<lambda>t v. commitVote alv app proc v t)
       (t\<lparr>addedResults := newResults proc, subtractedResults := newResults proc\<rparr>) votesByNullifier"

text \<open>Modelled from the spec: \<open>addLiveVote\<close> (vochain/indexer/vote.go) and the
  \<open>results\<close> package are not under src/. The spec's rules for adding one ballot: the
  decoded package is the list of choices (one byte each here, as the spec's scenarios
  write \<open>package=[1,0]\<close>); the choice count must equal the question count, each choice
  lies in \<open>[0, maxValue]\<close>, with \<open>uniqueValues\<close> no choice repeats, the cost
  \<open>\<Sum> choice^costExponent\<close> stays within \<open>maxTotalCost\<close> when that is set; an invalid
  ballot is dropped with an error; the weight defaults to 1; a valid ballot adds its
  weight to the cell of its choice in every question's row, and to the total weight.\<close>

definition addLiveVote :: addLiveVoteFn where
  "addLiveVote proc package weight r =
     (let choices = map (of_char :: char \<Rightarrow> nat) package;
          opts = VoteOpts proc;
          w = (case weight of None \<Rightarrow> 1 | Some w \<Rightarrow> w);
          rows = (if rVotes r = []
                  then replicate (unat (MaxCount opts)) (replicate (Suc (unat (MaxValue opts))) 0)
                  else rVotes r)
      in if length choices \<noteq> unat (MaxCount opts) then (r, Some ''choice count mismatch'')
         else if list_ex (\<lambda>c. unat (MaxValue opts) < c) choices then (r, Some ''max value overflow'')
         else if UniqueValues (Envelope proc) \<and> \<not> distinct choices then (r, Some ''values are not unique'')
         else if 0 < MaxTotalCost opts \<and>
                 unat (MaxTotalCost opts) < sum_list (map (\<lambda>c. c ^ unat (CostExponent opts)) choices)
         then (r, Some ''max total cost overflow'')
         else (r\<lparr>rVotes := map (\<lambda>(row, c). row[c := row ! c + w]) (zip rows choices),
                 rWeight := rWeight r + w\<rparr>, None))"

subsection \<open>The query surface\<close>

text \<open>\<open>indexertypes.TokenFeeMeta\<close>, \<open>indexertypes.TokenTransferMeta\<close> and
  \<open>indexertypes.Account\<close>.\<close>

record TokenFeeMeta =
  fmCost :: "64 word"
  fmFrom :: bytes
  fmTxType :: string
  fmHeight :: "64 word"
  fmReference :: string
  fmTimestamp :: "64 word"

record TokenTransferMeta =
  tmAmount :: "64 word"
  tmFrom :: bytes
  tmTo :: bytes
  tmHeight :: "64 word"
  tmTxHash :: bytes
  tmTimestamp :: "64 word"

record AccountMeta =
  amAddress :: bytes
  amBalance :: "64 word"
  amNonce :: "32 word"

text \<open>
  The errors of a listing: \<open>fmt.Errorf("invalid value: offset cannot be %d", offset)\<close>,
  the same for the limit, and the error of the store passed on.
\<close>

datatype queryError = InvalidOffset "64 word" | InvalidLimit "64 word" | StorageError string

text \<open>
  A listing returns the page, the total count and the error. The page is \<open>None\<close> for
  the nil slice; \<open>limit\<close> and \<open>offset\<close> are Go \<open>int\<close>s, compared signed. Calling a
  query on the nil \<open>readOnlyQuery\<close> of an indexer whose store was never opened is a
  nil dereference.
\<close>

type_synonym 'a listing = "('a list option \<times> 64 word \<times> queryError option) result"

definition TokenFeesList ::
  "64 word \<Rightarrow> 64 word \<Rightarrow> string \<Rightarrow> string \<Rightarrow> string \<Rightarrow> Indexer \<Rightarrow> TokenFeeMeta listing" where
  "TokenFeesList limit offset txType reference fromAccount idx =
     (if offset <s 0 then Ok (None, 0, Some (InvalidOffset offset))
      else if limit \<le>s 0 then Ok (None, 0, Some (InvalidLimit limit))
      else
        (case readOnlyQuery idx of
           None \<Rightarrow> Panic ''invalid memory address or nil pointer dereference''
         | Some q \<Rightarrow>
             (case SearchTokenFees q limit offset txType reference fromAccount of
                Inl err \<Rightarrow> Ok (None, 0, Some (StorageError err))
              | Inr results \<Rightarrow>
                  (let list = map (\<lambda>row. \<lparr>fmCost = tfCost row, fmFrom = tfFromAccount row,
                                          fmTxType = tfTxType row, fmHeight = tfBlockHeight row,
                                          fmReference = tfReference row,
                                          fmTimestamp = tfSpendTime row\<rparr>) results
                   in case results of
                        [] \<Rightarrow> Ok (Some list, 0, None)
                      | row0 # rest \<Rightarrow> Ok (Some list, tfTotalCount row0, None)))))"

definition TokenTransfersList ::
  "64 word \<Rightarrow> 64 word \<Rightarrow> string \<Rightarrow> string \<Rightarrow> string \<Rightarrow> Indexer \<Rightarrow> TokenTransferMeta listing" where
  "TokenTransfersList limit offset fromOrToAccount fromAccount toAccount idx =
     (if offset <s 0 then Ok (None, 0, Some (InvalidOffset offset))
      else if limit \<le>s 0 then Ok (None, 0, Some (InvalidLimit limit))
      else
        (case readOnlyQuery idx of
           None \<Rightarrow> Panic ''invalid memory address or nil pointer dereference''
         | Some q \<Rightarrow>
             (case SearchTokenTransfers q limit offset fromOrToAccount fromAccount toAccount of
                Inl err \<Rightarrow> Ok (None, 0, Some (StorageError err))
              | Inr results \<Rightarrow>
                  (let list = map (\<lambda>row. \<lparr>tmAmount = ttAmount row, tmFrom = ttFromAccount row,
                                          tmTo = ttToAccount row, tmHeight = ttBlockHeight row,
                                          tmTxHash = ttTxHash row,
                                          tmTimestamp = ttTransferTime row\<rparr>) results
                   in case results of
                        [] \<Rightarrow> Ok (Some list, 0, None)
                      | row0 # rest \<Rightarrow> Ok (Some list, ttTotalCount row0, None)))))"

definition AccountList :: "64 word \<Rightarrow> 64 word \<Rightarrow> string \<Rightarrow> Indexer \<Rightarrow> AccountMeta listing" where
  "AccountList limit offset accountID idx =
     (if offset <s 0 then Ok (None, 0, Some (InvalidOffset offset))
      else if limit \<le>s 0 then Ok (None, 0, Some (InvalidLimit limit))
      else
        (case readOnlyQuery idx of
           None \<Rightarrow> Panic ''invalid memory address or nil pointer dereference''
         | Some q \<Rightarrow>
             (case SearchAccounts q limit offset accountID of
                Inl err \<Rightarrow> Ok (None, 0, Some (StorageError err))
              | Inr results \<Rightarrow>
                  (let list = map (\<lambda>row. \<lparr>amAddress = acAccount row, amBalance = acBalance row,
                                          amNonce = ucast (acNonce row)\<rparr>) results
                   in case results of
                        [] \<Rightarrow> Ok (Some list, 0, None)
                      | row0 # rest \<Rightarrow> Ok (Some list, acTotalCount row0, None)))))"

text \<open>\<open>AccountExists\<close> returns the answer and leaves the indexer with its log.\<close>

definition AccountExists :: "string \<Rightarrow> Indexer \<Rightarrow> (bool \<times> Indexer) result" where
  "AccountExists accountID idx =
     (if length accountID \<noteq> 40 then Ok (False, idx)
      else rbind (AccountList 1 0 accountID idx) (\<lambda>(list, count, err).
             Ok (0 < count,
                 (case err of None \<Rightarrow> idx | Some e \<Rightarrow> logw ErrorLvl ''indexer query failed'' idx))))"

subsection \<open>ReindexBlocks: the transactions of one block\<close>

text \<open>The block of the block store, with the fields the reindex reads, and
  \<open>vochaintx.Tx\<close> with its hash.\<close>

record Block =
  bHeight :: "64 word"
  bChainID :: string
  bTxs :: "bytes list"

record VochainTx =
  TxID :: bytes
  TxBody :: bytes

text \<open>
  The closure \<open>// Transactions\<close> of \<open>ReindexBlocks\<close>, run on one block with the lock
  held: \<open>for index, tx := range b.Data.Txs\<close>. \<open>hashOf\<close> is \<open>tx.Hash()\<close>, \<open>unmarshal\<close>
  is \<open>vtx.Unmarshal(tx, b.ChainID)\<close> and \<open>indexTx\<close> is \<open>idx.indexTx\<close>. The \<open>return\<close>
  on a hash that differs leaves the closure, the \<open>continue\<close> on a transaction that
  cannot be unmarshalled goes on with the next index.
\<close>

fun reindexTxs ::
  "(bytes \<Rightarrow> bytes) \<Rightarrow> (bytes \<Rightarrow> string \<Rightarrow> string + 'v) \<Rightarrow>
   ('v \<Rightarrow> 32 word \<Rightarrow> 32 word \<Rightarrow> Indexer \<Rightarrow> Indexer result) \<Rightarrow>
   Block \<Rightarrow> nat \<Rightarrow> bytes list \<Rightarrow> Indexer \<Rightarrow> Indexer result" where
  "reindexTxs hashOf unmarshal indexTx b index [] idx = Ok idx"
| "reindexTxs hashOf unmarshal indexTx b index (tx # txs) idx =
     (case readOnlyQuery idx of
        None \<Rightarrow> Panic ''invalid memory address or nil pointer dereference''
      | Some q \<Rightarrow>
          if (case GetTransactionByHeightAndIndex q (bHeight b) (of_nat index) of
                Inl err \<Rightarrow> False
              | Inr idxTx \<Rightarrow> trHash idxTx \<noteq> hashOf tx)
          then Ok (logw ErrorLvl
                 ''while reindexing txs, tx hash in db differs from blockstore, leaving untouched'' idx)
          else
            (case unmarshal tx (bChainID b) of
               Inl err \<Rightarrow>
                 reindexTxs hashOf unmarshal indexTx b (Suc index) txs
                   (logw ErrorLvl ''cannot unmarshal tx'' idx)
             | Inr vtx \<Rightarrow>
                 (case indexTx vtx (ucast (bHeight b)) (of_nat index) idx of
                    Ok idx' \<Rightarrow> reindexTxs hashOf unmarshal indexTx b (Suc index) txs idx'
                  | Panic s \<Rightarrow> Panic s
                  | Blocked \<Rightarrow> Blocked)))"

definition reindexBlockTxs ::
  "(bytes \<Rightarrow> bytes) \<Rightarrow> (bytes \<Rightarrow> string \<Rightarrow> string + 'v) \<Rightarrow>
   ('v \<Rightarrow> 32 word \<Rightarrow> 32 word \<Rightarrow> Indexer \<Rightarrow> Indexer result) \<Rightarrow> Block \<Rightarrow> Indexer \<Rightarrow> Indexer result" where
  "reindexBlockTxs hashOf unmarshal indexTx b idx = reindexTxs hashOf unmarshal indexTx b 0 (bTxs b) idx"

text \<open>Modelled from the spec: \<open>indexTx\<close> (vochain/indexer/transaction.go) is not under
  src/; the spec's reindex inserts the Transaction row, identified by (block height,
  block index) and carrying the hash, within the open block transaction.\<close>

definition indexTx :: "VochainTx \<Rightarrow> 32 word \<Rightarrow> 32 word \<Rightarrow> Indexer \<Rightarrow> Indexer result" where
  "indexTx vtx blockHeight txIndex idx =
     rbind (blockTxQueries idx) (\<lambda>(queries, idx).
       (case execWrite queries (CreateTransaction (TxID vtx) (ucast blockHeight) (scast txIndex)) idx of
          (idx, err) \<Rightarrow> Ok (logErr err ''cannot index tx'' idx)))"

subsection \<open>Restoring a backup\<close>






subsection \<open>The block transaction and the prepared queries\<close>

text \<open>
  The prepared queries follow the open block transaction: whenever a transaction is
  open, \<open>blockQueries\<close> is bound to it. It holds at the start of every block, where no
  transaction is open, and \<open>blockTxQueries\<close> keeps it. \<open>quiet\<close> adds that the block
  lock is free, as it is between two calls of the chain application.
\<close>

definition txBound :: "Indexer \<Rightarrow> bool" where
  "txBound idx =
     (case blockTx idx of
        None \<Rightarrow> True
      | Some tx \<Rightarrow> (case blockQueries idx of None \<Rightarrow> False | Some q \<Rightarrow> boundTo q = OnTx (txId tx)))"

definition boundHere :: "Queries \<Rightarrow> Indexer \<Rightarrow> bool" where
  "boundHere q idx = (case blockTx idx of None \<Rightarrow> False | Some tx \<Rightarrow> boundTo q = OnTx (txId tx))"

definition quiet :: "Indexer \<Rightarrow> bool" where
  "quiet idx = (txBound idx \<and> \<not> blockMu idx)"

subsection \<open>Concrete states, for evaluating the model\<close>

text \<open>Modelled from the spec: the search queries of \<open>indexerdb\<close> are SQL that is not
  under src/; a page is the matching rows from \<open>offset\<close> on, at most \<open>limit\<close> of them,
  and the total count of matching rows is a column of each row.\<close>

definition pageRows :: "'a list \<Rightarrow> 64 word \<Rightarrow> 64 word \<Rightarrow> 'a list" where
  "pageRows matching limit offset = take (unat limit) (drop (unat offset) matching)"

definition exAddress :: string where
  "exAddress = ''0123456789abcdef0123456789abcdef01234567''"

definition exAccountRows :: "string \<Rightarrow> SearchAccountsRow list" where
  "exAccountRows accountID =
     (let matching = filter (\<lambda>a. accountID = [] \<or> a = accountID)
                       [exAddress, ''89abcdef0123456789abcdef0123456789abcdef'']
      in map (\<lambda>a. \<lparr>acAccount = a, acBalance = 100, acNonce = 1,
                    acTotalCount = of_nat (length matching)\<rparr>) matching)"

definition exFeeRows :: "SearchTokenFeesRow list" where
  "exFeeRows =
     [\<lparr>tfCost = 10, tfFromAccount = exAddress, tfTxType = ''vote'', tfBlockHeight = 7,
       tfReference = ''P'', tfSpendTime = 1700000000, tfTotalCount = 1\<rparr>]"

definition exTransferRows :: "SearchTokenTransfersRow list" where
  "exTransferRows =
     [\<lparr>ttAmount = 3, ttFromAccount = exAddress, ttToAccount = ''89abcdef0123456789abcdef0123456789abcdef'',
       ttBlockHeight = 7, ttTxHash = ''h1'', ttTransferTime = 1700000000, ttTotalCount = 1\<rparr>]"

definition exReadQueries :: ReadQueries where
  "exReadQueries =
     \<lparr>SearchTokenFees = (\<lambda>limit offset txType reference fromAccount. Inr (pageRows exFeeRows limit offset)),
      SearchTokenTransfers = (\<lambda>limit offset fromOrTo fromAccount toAccount.
                                Inr (pageRows exTransferRows limit offset)),
      SearchAccounts = (\<lambda>limit offset accountID. Inr (pageRows (exAccountRows accountID) limit offset)),
      GetTransactionByHeightAndIndex =
        (\<lambda>height index. if height = 5 \<and> index = 0 then Inr \<lparr>trHash = ''stale''\<rparr>
                         else Inl ''sql: no rows in result set'')\<rparr>"

definition exPrevInvalid :: StateDBVote where
  "exPrevInvalid = \<lparr>sdbVotePackage = [CHR 0x02, CHR 0x00], sdbWeight = [CHR 0x01], sdbOverwriteCount = None\<rparr>"

definition exPrevValid :: StateDBVote where
  "exPrevValid = \<lparr>sdbVotePackage = [CHR 0x01, CHR 0x00], sdbWeight = [CHR 0x05], sdbOverwriteCount = None\<rparr>"

definition exPrevCounted :: StateDBVote where
  "exPrevCounted = \<lparr>sdbVotePackage = [CHR 0x01, CHR 0x00], sdbWeight = [CHR 0x05], sdbOverwriteCount = Some 3\<rparr>"

definition exApp :: App where
  "exApp = \<lparr>IsSynced = True, AppHeight = 7, Timestamp = 1700000000,
            StateProcess = (\<lambda>pid. Inl ''process not found''),
            StateVote = (\<lambda>pid nullifier.
                           if nullifier = ''N1'' then Inr (Some exPrevValid)
                           else if nullifier = ''N2'' then Inr (Some exPrevCounted)
                           else if nullifier = ''N3'' then Inr (Some exPrevInvalid)
                           else if nullifier = ''N4'' then Inl ''vote not found''
                           else Inr None)\<rparr>"

definition exDB :: sqlDB where
  "exDB = \<lparr>committed = [], nextTxId = 0, beginErr = None, stmtErr = (\<lambda>s. None),
           txRollbackErr = None\<rparr>"

definition exVote :: "bytes \<Rightarrow> 32 word \<Rightarrow> bytes \<Rightarrow> Vote" where
  "exVote nullifier n package =
     \<lparr>ProcessID = ''P'', Nullifier = nullifier, Height = 3, VotePackage = package,
      Weight = Some 5, Overwrites = n, VoterID = [], EncryptionKeyIndexes = []\<rparr>"

text \<open>An indexer with its store open, no block in progress, and \<open>P\<close> a live process.\<close>

definition exIdx :: Indexer where
  "exIdx = \<lparr>App = exApp, votePool = Map.empty, dbPath = ''data/db.sqlite'',
      readOnlyDB = Some exDB, readWriteDB = Some exDB, readOnlyQuery = Some exReadQueries,
      blockMu = False, blockTx = None, blockQueries = Some \<lparr>boundTo = OnConn\<rparr>,
      blockUpdateProcs = Map.empty, blockUpdateProcVoteCounts = Map.empty,
      liveResultsProcs = {''P''}, ignoreLiveResults = False, logs = []\<rparr>"

text \<open>The pool already holds a ballot of \<open>N1\<close> with overwrite counter 2, and the state
  after \<open>OnVote\<close> is then called with a ballot of \<open>N1\<close> whose counter is 1.\<close>

definition exIdxPooled :: Indexer where
  "exIdxPooled = exIdx\<lparr>votePool := [''P'' \<mapsto> [''N1'' \<mapsto> exVote ''N1'' 2 ''a'']]\<rparr>"

definition exIdxAfter :: Indexer where
  "exIdxAfter = exIdx\<lparr>
      votePool := [''P'' \<mapsto> [''N1'' \<mapsto> exVote ''N1'' 1 ''b'']],
      readWriteDB := Some (exDB\<lparr>nextTxId := 1\<rparr>),
      blockTx := Some \<lparr>txId = 0,
         pending = [CreateVote ''N1'' ''P'' 3 1 5 1 [] [] ''b''], rollbackErr = None\<rparr>,
      blockQueries := Some \<lparr>boundTo = OnTx 0\<rparr>,
      blockUpdateProcVoteCounts := [''P'' \<mapsto> True],
      logs := [(WarnLvl, ''OnVote called with a lower overwrite value than before'')]\<rparr>"

text \<open>The ballot pooled under a process and a nullifier.\<close>

definition pooled :: "Indexer \<Rightarrow> bytes \<Rightarrow> bytes \<Rightarrow> Vote option" where
  "pooled idx pid nullifier = (case votePool idx pid of None \<Rightarrow> None | Some m \<Rightarrow> m nullifier)"

text \<open>A block's calls on the event sink, and the indexer they leave.\<close>

definition exEvents :: "event list" where
  "exEvents = [EvProcess ''P2'', EvVote (exVote ''N1'' 0 ''a'') 0,
               EvSetAccount ''acct'' \<lparr>Balance = 100, Nonce = 1\<rparr>, EvCancel ''P'']"

definition exIdxBlock :: Indexer where
  "exIdxBlock = exIdx\<lparr>
      votePool := [''P'' \<mapsto> [''N1'' \<mapsto> exVote ''N1'' 0 ''a'']],
      readWriteDB := Some (exDB\<lparr>nextTxId := 1\<rparr>),
      blockTx := Some \<lparr>txId = 0,
         pending = [CreateProcess ''P2'', CreateVote ''N1'' ''P'' 3 0 5 0 [] [] ''a'',
                    CreateAccount ''acct'' 100 1],
         rollbackErr = None\<rparr>,
      blockQueries := Some \<lparr>boundTo = OnTx 0\<rparr>,
      blockUpdateProcs := [''P'' \<mapsto> True],
      blockUpdateProcVoteCounts := [''P'' \<mapsto> True],
      liveResultsProcs := {''P2'', ''P''},
      logs := [(DebugLvl, ''new process'')]\<rparr>"

text \<open>The process of the spec's scenarios (two questions, values 0 and 1) and the
  tally at the start of its loop.\<close>

definition exProc :: Process where
  "exProc = \<lparr>ID = ''P'', Envelope = \<lparr>EncryptedVotes = False, UniqueValues = False\<rparr>,
     VoteOpts = \<lparr>MaxCount = 2, MaxValue = 1, MaxTotalCost = 0, CostExponent = 1\<rparr>,
     ResultsVotes = [[5, 2], [0, 7]], ResultsWeight = 7, ResultsBlockHeight = 4\<rparr>"

definition exTally :: liveTally where
  "exTally = \<lparr>addedResults = newResults exProc, subtractedResults = newResults exProc,
     newVotes = 0, overwritedVotes = 0, tallyLog = []\<rparr>"

text \<open>A block of two transactions at height 5, with the hash and the decoding of a
  transaction.\<close>

definition exBlock :: Block where
  "exBlock = \<lparr>bHeight = 5, bChainID = ''chain'', bTxs = [''tx0'', ''tx1'']\<rparr>"

definition exHash :: "bytes \<Rightarrow> bytes" where
  "exHash tx = ''hash-'' @ tx"

definition exUnmarshal :: "bytes \<Rightarrow> string \<Rightarrow> string + VochainTx" where
  "exUnmarshal tx chainID = (if tx = [] then Inl ''empty tx'' else Inr \<lparr>TxID = exHash tx, TxBody = tx\<rparr>)"



definition exIdxUnopened :: Indexer where
  "exIdxUnopened = exIdx\<lparr>readOnlyDB := None, readWriteDB := None, readOnlyQuery := None,
                         blockQueries := None\<rparr>"

section \<open>Properties\<close>

subsection \<open>Helper lemmas\<close>

lemma rbind_Ok: "rbind m f = Ok y \<longleftrightarrow> (\<exists>x. m = Ok x \<and> f x = Ok y)"
  by (cases m) (simp_all add: rbind_def)

lemma withLock_Ok:
  "withLock body idx = Ok idx' \<longleftrightarrow>
     \<not> blockMu idx \<and> (\<exists>i. body (idx\<lparr>blockMu := True\<rparr>) = Ok i \<and> idx' = i\<lparr>blockMu := False\<rparr>)"
  by (auto simp: withLock_def rbind_Ok)

lemmas sink_defs = OnVote_def poolVote_def Let_def withLock_def rbind_def blockTxQueries_def
  Begin_def WithTx_def execWrite_def isProcessLiveResults_def logErr_def logw_def nonNullBytes_def
  OnProcess_def newEmptyProcess_def addProcessToLiveResults_def OnSetAccount_def OnCancel_def
  markUpdateProc_def

lemmas ex_defs = exVote_def exIdx_def exDB_def exApp_def

lemma replicate_two: "replicate 2 x = [x, x]"
  by (simp add: numeral_2_eq_2)

subsection \<open>OnVote and the vote pool\<close>

lemma blockTxQueries_keeps_pool:
  "blockTxQueries idx = Ok (q, idx') \<Longrightarrow> votePool idx' = votePool idx \<and> logs idx' = logs idx"
  by (auto simp: blockTxQueries_def split: if_splits option.splits sum.splits prod.splits)

lemma execWrite_keeps_pool:
  "execWrite q s idx = (idx', e) \<Longrightarrow> votePool idx' = votePool idx \<and> logs idx' = logs idx"
  by (auto simp: execWrite_def split: if_splits option.splits binding.splits)

lemma OnVote_pool:
  assumes "OnVote vote txIndex idx = Ok idx'"
  shows "votePool idx' = votePool (poolVote vote idx) \<and>
         set (logs (poolVote vote idx)) \<subseteq> set (logs idx')"
  using assms
  apply (clarsimp simp: OnVote_def Let_def withLock_Ok rbind_def split: result.splits prod.splits)
  apply (drule blockTxQueries_keeps_pool)
  apply (drule execWrite_keeps_pool)
  apply (auto simp: logErr_def logw_def split: option.splits)
  done

text \<open>\<open>OnVote\<close> returns whenever the lock is free, the store is open and the driver
  grants the transaction.\<close>

lemma OnVote_returns:
  assumes "\<not> blockMu idx" "readWriteDB idx = Some db" "beginErr db = None" "blockQueries idx = Some q"
  shows "\<exists>idx'. OnVote vote txIndex idx = Ok idx'"
proof -
  let ?i = "(poolVote vote idx)\<lparr>blockMu := True\<rparr>"
  have p: "blockMu (poolVote vote idx) = blockMu idx" "readWriteDB (poolVote vote idx) = readWriteDB idx"
    "blockQueries (poolVote vote idx) = blockQueries idx"
    by (simp_all add: poolVote_def Let_def logw_def split: option.splits)
  have "\<exists>q' i'. blockTxQueries ?i = Ok (q', i')"
    using assms p by (auto simp: blockTxQueries_def Begin_def split: option.splits)
  then obtain q' i' where b: "blockTxQueries ?i = Ok (q', i')" by blast
  show ?thesis
    using assms(1) p(1) b
    by (auto simp: OnVote_def Let_def withLock_def rbind_def split: prod.splits)
qed

lemma exOnVote: "OnVote (exVote ''N1'' 1 ''b'') 1 exIdxPooled = Ok exIdxAfter"
  by (simp add: sink_defs ex_defs exIdxPooled_def exIdxAfter_def)

text \<open>
  C1 (as stated, refuted). The claim: after \<open>OnVote\<close> on a live-results process the pool
  entry holds the ballot with the highest overwrite counter seen so far, and a ballot
  that arrives with a lower counter than the pooled one is warned about and not
  pooled. Here the pool holds the ballot of \<open>N1\<close> with counter 2; \<open>OnVote\<close> is called
  with a ballot of \<open>N1\<close> with counter 1 and returns; the pool then holds the ballot
  with counter 1, and the one with counter 2 is gone.
\<close>

theorem OnVote_keeps_highest_counterexample:
  "\<not> ignoreLiveResults exIdxPooled \<and> isProcessLiveResults exIdxPooled ''P'' \<and>
   pooled exIdxPooled ''P'' ''N1'' = Some (exVote ''N1'' 2 ''a'') \<and>
   Overwrites (exVote ''N1'' 1 ''b'') < Overwrites (exVote ''N1'' 2 ''a'') \<and>
   OnVote (exVote ''N1'' 1 ''b'') 1 exIdxPooled = Ok exIdxAfter \<and>
   pooled exIdxAfter ''P'' ''N1'' = Some (exVote ''N1'' 1 ''b'') \<and>
   pooled exIdxAfter ''P'' ''N1'' \<noteq> Some (exVote ''N1'' 2 ''a'')"
  using exOnVote
  by (simp add: pooled_def exIdxPooled_def exIdxAfter_def exIdx_def exVote_def isProcessLiveResults_def)

text \<open>
  C1 (amended). For every call to \<open>OnVote\<close> on a live-results process that returns, the
  pool entry for (processId, nullifier) afterwards holds the ballot of this call,
  whatever its overwrite counter; if its counter is lower than that of the ballot
  pooled before under the same nullifier, a warning is logged (and the pooled ballot
  is replaced all the same).
\<close>

theorem OnVote_pools_latest:
  assumes live: "\<not> ignoreLiveResults idx" "isProcessLiveResults idx (ProcessID vote)"
    and ret: "OnVote vote txIndex idx = Ok idx'"
  shows "pooled idx' (ProcessID vote) (Nullifier vote) = Some vote \<and>
         (\<forall>pv. pooled idx (ProcessID vote) (Nullifier vote) = Some pv \<and>
               Overwrites vote < Overwrites pv \<longrightarrow>
               (WarnLvl, ''OnVote called with a lower overwrite value than before'') \<in> set (logs idx'))"
proof -
  from ret have pool: "votePool idx' = votePool (poolVote vote idx)"
    and lg: "set (logs (poolVote vote idx)) \<subseteq> set (logs idx')"
    using OnVote_pool by blast+
  have a: "pooled (poolVote vote idx) (ProcessID vote) (Nullifier vote) = Some vote"
    using live by (simp add: pooled_def poolVote_def Let_def logw_def split: option.splits)
  have b: "(WarnLvl, ''OnVote called with a lower overwrite value than before'')
             \<in> set (logs (poolVote vote idx))"
    if "pooled idx (ProcessID vote) (Nullifier vote) = Some pv" "Overwrites vote < Overwrites pv" for pv
    using live that by (auto simp: pooled_def poolVote_def Let_def logw_def split: option.splits)
  from a pool have "pooled idx' (ProcessID vote) (Nullifier vote) = Some vote"
    by (simp add: pooled_def)
  with b lg show ?thesis by blast
qed

theorem OnVote_pools_latest_witness:
  "\<not> ignoreLiveResults exIdxPooled \<and> isProcessLiveResults exIdxPooled ''P'' \<and>
   OnVote (exVote ''N1'' 1 ''b'') 1 exIdxPooled = Ok exIdxAfter \<and>
   pooled exIdxAfter ''P'' ''N1'' = Some (exVote ''N1'' 1 ''b'') \<and>
   (WarnLvl, ''OnVote called with a lower overwrite value than before'') \<in> set (logs exIdxAfter)"
proof -
  have h1: "\<not> ignoreLiveResults exIdxPooled"
    by (simp add: exIdxPooled_def exIdx_def)
  have h2: "isProcessLiveResults exIdxPooled (ProcessID (exVote ''N1'' 1 ''b''))"
    by (simp add: exIdxPooled_def exIdx_def exVote_def isProcessLiveResults_def)
  have p: "pooled exIdxPooled ''P'' ''N1'' = Some (exVote ''N1'' 2 ''a'')"
    by (simp add: pooled_def exIdxPooled_def)
  have lt: "Overwrites (exVote ''N1'' 1 ''b'') < Overwrites (exVote ''N1'' 2 ''a'')"
    by (simp add: exVote_def)
  from OnVote_pools_latest [OF h1 h2 exOnVote] p lt h1 h2 exOnVote
  show ?thesis by (simp add: exVote_def)
qed

subsection \<open>Commit: overwrites in the live tally\<close>

lemma tlog_simps [simp]:
  "addedResults (tlog l m t) = addedResults t"
  "subtractedResults (tlog l m t) = subtractedResults t"
  "newVotes (tlog l m t) = newVotes t"
  "overwritedVotes (tlog l m t) = overwritedVotes t"
  "tallyLog (tlog l m t) = tallyLog t @ [(l, m)]"
  by (simp_all add: tlog_def)

lemma addNewVote_simps [simp]:
  "addedResults (addNewVote alv proc v t) = fst (alv proc (VotePackage v) (Weight v) (addedResults t))"
  "subtractedResults (addNewVote alv proc v t) = subtractedResults t"
  "newVotes (addNewVote alv proc v t) = newVotes t"
  "overwritedVotes (addNewVote alv proc v t) = overwritedVotes t"
  by (simp_all add: addNewVote_def split: prod.splits option.splits)


text \<open>The loop applies the body to the ballots one after the other, so what holds of
  the body for every incoming tally holds at every ballot of the loop.\<close>

lemma commitVotes_snoc:
  "commitVotes alv app proc (vs @ [v]) t = commitVote alv app proc v (commitVotes alv app proc vs t)"
  by (simp add: commitVotes_def)




text \<open>
  C3. During Commit, for every pooled ballot with overwrite counter \<open>> 0\<close> whose
  previously committed ballot cannot be read from chain state (the lookup returns an
  error, or nil), the new ballot is still added to the added accumulator
  (\<open>addLiveVote\<close> is run on it with the ballot's package and weight), nothing is added
  to the subtracted accumulator, and the ballot is counted as a new vote, not as an
  overwritten one.
\<close>

theorem commitVote_unreadable_previous:
  assumes "0 < Overwrites v"
    and "StateVote app (ProcessID v) (Nullifier v) = Inl e \<or>
         StateVote app (ProcessID v) (Nullifier v) = Inr None"
  shows "addedResults (commitVote alv app proc v t) =
           fst (alv proc (VotePackage v) (Weight v) (addedResults t)) \<and>
         subtractedResults (commitVote alv app proc v t) = subtractedResults t \<and>
         newVotes (commitVote alv app proc v t) = newVotes t + 1 \<and>
         overwritedVotes (commitVote alv app proc v t) = overwritedVotes t"
proof -
  from assms(2) show ?thesis
  proof
    assume "StateVote app (ProcessID v) (Nullifier v) = Inl e"
    with assms(1) have "commitVote alv app proc v t =
        addNewVote alv proc v ((tlog WarnLvl ''cannot get previous vote'' t)
          \<lparr>newVotes := newVotes (tlog WarnLvl ''cannot get previous vote'' t) + 1\<rparr>)"
      by (simp add: commitVote_def)
    then show ?thesis by simp
  next
    assume "StateVote app (ProcessID v) (Nullifier v) = Inr None"
    with assms(1) have "commitVote alv app proc v t = addNewVote alv proc v (t\<lparr>newVotes := newVotes t + 1\<rparr>)"
      by (simp add: commitVote_def)
    then show ?thesis by simp
  qed
qed

theorem commitVote_unreadable_previous_witness:
  "0 < Overwrites (exVote ''N4'' 1 [CHR 0x01, CHR 0x00]) \<and>
   StateVote exApp ''P'' ''N4'' = Inl ''vote not found'' \<and>
   rVotes (addedResults
     (commitVote addLiveVote exApp exProc (exVote ''N4'' 1 [CHR 0x01, CHR 0x00]) exTally)) = [[0, 5], [5, 0]] \<and>
   subtractedResults (commitVote addLiveVote exApp exProc (exVote ''N4'' 1 [CHR 0x01, CHR 0x00]) exTally) =
     newResults exProc \<and>
   newVotes (commitVote addLiveVote exApp exProc (exVote ''N4'' 1 [CHR 0x01, CHR 0x00]) exTally) = 1 \<and>
   overwritedVotes (commitVote addLiveVote exApp exProc (exVote ''N4'' 1 [CHR 0x01, CHR 0x00]) exTally) = 0 \<and>
   StateVote exApp ''P'' ''N9'' = Inr None \<and>
   rVotes (addedResults
     (commitVote addLiveVote exApp exProc (exVote ''N9'' 1 [CHR 0x01, CHR 0x00]) exTally)) = [[0, 5], [5, 0]] \<and>
   subtractedResults (commitVote addLiveVote exApp exProc (exVote ''N9'' 1 [CHR 0x01, CHR 0x00]) exTally) =
     newResults exProc \<and>
   newVotes (commitVote addLiveVote exApp exProc (exVote ''N9'' 1 [CHR 0x01, CHR 0x00]) exTally) = 1"
proof -
  have b1: "0 < Overwrites (exVote ''N9'' 1 [CHR 0x01, CHR 0x00])" by (simp add: exVote_def)
  have b2: "StateVote exApp (ProcessID (exVote ''N9'' 1 [CHR 0x01, CHR 0x00]))
      (Nullifier (exVote ''N9'' 1 [CHR 0x01, CHR 0x00])) = Inl [] \<or>
    StateVote exApp (ProcessID (exVote ''N9'' 1 [CHR 0x01, CHR 0x00]))
      (Nullifier (exVote ''N9'' 1 [CHR 0x01, CHR 0x00])) = Inr None"
    by (simp add: exVote_def exApp_def)
  have s9: "fst (addLiveVote exProc (VotePackage (exVote ''N9'' 1 [CHR 0x01, CHR 0x00]))
             (Weight (exVote ''N9'' 1 [CHR 0x01, CHR 0x00])) (addedResults exTally)) =
           (newResults exProc)\<lparr>rVotes := [[0, 5], [5, 0]], rWeight := 5\<rparr>"
    by (simp add: addLiveVote_def exProc_def exVote_def exTally_def newResults_def Let_def replicate_two)
  have a1: "0 < Overwrites (exVote ''N4'' 1 [CHR 0x01, CHR 0x00])" by (simp add: exVote_def)
  have a2: "StateVote exApp (ProcessID (exVote ''N4'' 1 [CHR 0x01, CHR 0x00]))
      (Nullifier (exVote ''N4'' 1 [CHR 0x01, CHR 0x00])) = Inl ''vote not found'' \<or>
    StateVote exApp (ProcessID (exVote ''N4'' 1 [CHR 0x01, CHR 0x00]))
      (Nullifier (exVote ''N4'' 1 [CHR 0x01, CHR 0x00])) = Inr None"
    by (simp add: exVote_def exApp_def)
  have s: "fst (addLiveVote exProc (VotePackage (exVote ''N4'' 1 [CHR 0x01, CHR 0x00]))
             (Weight (exVote ''N4'' 1 [CHR 0x01, CHR 0x00])) (addedResults exTally)) =
           (newResults exProc)\<lparr>rVotes := [[0, 5], [5, 0]], rWeight := 5\<rparr>"
    by (simp add: addLiveVote_def exProc_def exVote_def exTally_def newResults_def Let_def replicate_two)
  from commitVote_unreadable_previous [OF a1 a2, of addLiveVote exProc exTally]
       commitVote_unreadable_previous [OF b1 b2, of addLiveVote exProc exTally] a1 s s9
  show ?thesis by (simp add: exVote_def exApp_def exTally_def)
qed

subsection \<open>Rollback and the event sink\<close>

lemma blockTxQueries_Ok:
  assumes "blockTxQueries idx = Ok (q, idx')" "txBound idx"
  shows "persisted idx' = persisted idx \<and> txBound idx' \<and> boundHere q idx'"
  using assms
  by (auto simp: blockTxQueries_def Begin_def persisted_def txBound_def boundHere_def WithTx_def
      split: if_splits option.splits sum.splits prod.splits)

lemma execWrite_bound:
  assumes "execWrite q s idx = (idx', e)" "boundHere q idx" "txBound idx"
  shows "persisted idx' = persisted idx \<and> txBound idx'"
  using assms
  by (auto simp: execWrite_def persisted_def txBound_def boundHere_def
      split: if_splits option.splits binding.splits)

text \<open>A write through \<open>blockTxQueries\<close> reaches the open transaction only.\<close>

lemma write_Ok:
  assumes "rbind (blockTxQueries idx)
             (\<lambda>(queries, idx). case execWrite queries (s idx) idx of (idx, err) \<Rightarrow> Ok (f idx err)) = Ok idx'"
    and "txBound idx"
  shows "\<exists>i e. idx' = f i e \<and> persisted i = persisted idx \<and> txBound i"
proof -
  from assms(1) obtain q i1 where a: "blockTxQueries idx = Ok (q, i1)"
    and b: "(case execWrite q (s i1) i1 of (idx, err) \<Rightarrow> Ok (f idx err)) = Ok idx'"
    by (auto simp: rbind_Ok)
  obtain i2 e where c: "execWrite q (s i1) i1 = (i2, e)" by (cases "execWrite q (s i1) i1")
  with b have d: "idx' = f i2 e" by simp
  from blockTxQueries_Ok[OF a assms(2)] execWrite_bound[OF c]
  have "persisted i2 = persisted idx \<and> txBound i2" by simp
  with d show ?thesis by blast
qed

lemma frame_simps [simp]:
  "persisted (idx\<lparr>blockMu := b\<rparr>) = persisted idx"
  "txBound (idx\<lparr>blockMu := b\<rparr>) = txBound idx"
  "persisted (logErr e m idx) = persisted idx"
  "txBound (logErr e m idx) = txBound idx"
  "persisted (logw l m idx) = persisted idx"
  "txBound (logw l m idx) = txBound idx"
  "persisted (markUpdateProc pid idx) = persisted idx"
  "txBound (markUpdateProc pid idx) = txBound idx"
  "persisted (idx\<lparr>blockUpdateProcVoteCounts := c\<rparr>) = persisted idx"
  "txBound (idx\<lparr>blockUpdateProcVoteCounts := c\<rparr>) = txBound idx"
  "persisted (addProcessToLiveResults pid idx) = persisted idx"
  "txBound (addProcessToLiveResults pid idx) = txBound idx"
  "persisted (poolVote v idx) = persisted idx"
  "txBound (poolVote v idx) = txBound idx"
  "blockMu (logw l m idx) = blockMu idx"
  by (auto simp: persisted_def txBound_def logErr_def logw_def markUpdateProc_def
      addProcessToLiveResults_def poolVote_def Let_def split: option.splits)

lemma foldl_mark [simp]:
  "persisted (foldl (\<lambda>idx pid. markUpdateProc pid idx) idx pids) = persisted idx"
  "txBound (foldl (\<lambda>idx pid. markUpdateProc pid idx) idx pids) = txBound idx"
  by (induction pids arbitrary: idx) simp_all

lemma mark_frame:
  assumes "withLock (\<lambda>idx. Ok (markUpdateProc pid idx)) idx = Ok idx'" "txBound idx"
  shows "persisted idx' = persisted idx \<and> txBound idx' \<and> \<not> blockMu idx'"
  using assms by (auto simp: withLock_Ok)

lemma OnVote_frame:
  assumes "OnVote vote txIndex idx = Ok idx'" "txBound idx"
  shows "persisted idx' = persisted idx \<and> txBound idx' \<and> \<not> blockMu idx'"
  using assms
  apply (clarsimp simp: OnVote_def Let_def withLock_Ok)
  apply (drule write_Ok)
   apply auto
  done

lemma OnSetAccount_frame:
  assumes "OnSetAccount a acc idx = Ok idx'" "txBound idx"
  shows "persisted idx' = persisted idx \<and> txBound idx' \<and> \<not> blockMu idx'"
  using assms
  apply (clarsimp simp: OnSetAccount_def withLock_Ok)
  apply (drule write_Ok)
   apply auto
  done

lemma OnTransferTokens_frame:
  assumes "OnTransferTokens tx idx = Ok idx'" "txBound idx"
  shows "persisted idx' = persisted idx \<and> txBound idx' \<and> \<not> blockMu idx'"
  using assms
  apply (clarsimp simp: OnTransferTokens_def withLock_Ok)
  apply (drule write_Ok)
   apply auto
  done

lemma OnSpendTokens_frame:
  assumes "OnSpendTokens a t c r idx = Ok idx'" "txBound idx"
  shows "persisted idx' = persisted idx \<and> txBound idx' \<and> \<not> blockMu idx'"
  using assms
  apply (clarsimp simp: OnSpendTokens_def withLock_Ok)
  apply (drule write_Ok)
   apply auto
  done

lemma newEmptyProcess_frame:
  assumes "newEmptyProcess pid idx = Ok (idx', e)" "txBound idx"
  shows "persisted idx' = persisted idx \<and> txBound idx' \<and> \<not> blockMu idx'"
proof -
  from assms(1) have nb: "\<not> blockMu idx"
    by (auto simp: newEmptyProcess_def split: if_splits)
  with assms(1) obtain q i1 where a: "blockTxQueries (idx\<lparr>blockMu := True\<rparr>) = Ok (q, i1)"
    and b: "(case execWrite q (CreateProcess pid) i1 of
               (idx, err) \<Rightarrow> Ok (idx\<lparr>blockMu := False\<rparr>, err)) = Ok (idx', e)"
    by (auto simp: newEmptyProcess_def rbind_Ok)
  obtain i2 e2 where c: "execWrite q (CreateProcess pid) i1 = (i2, e2)"
    by (cases "execWrite q (CreateProcess pid) i1")
  with b have d: "idx' = i2\<lparr>blockMu := False\<rparr>" by simp
  from assms(2) have "txBound (idx\<lparr>blockMu := True\<rparr>)" by simp
  from blockTxQueries_Ok[OF a this] execWrite_bound[OF c]
  have "persisted i2 = persisted idx \<and> txBound i2" by simp
  with d show ?thesis by simp
qed

lemma OnProcess_frame:
  assumes "OnProcess pid idx = Ok idx'" "txBound idx"
  shows "persisted idx' = persisted idx \<and> txBound idx' \<and> \<not> blockMu idx'"
  using assms
  apply (clarsimp simp: OnProcess_def rbind_Ok Let_def)
  apply (drule newEmptyProcess_frame)
   apply (auto simp: logErr_def logw_def addProcessToLiveResults_def split: option.splits)
  done

lemma OnRevealKeys_frame:
  assumes "OnRevealKeys pid idx = Ok idx'" "quiet idx"
  shows "persisted idx' = persisted idx \<and> quiet idx'"
  using assms
  by (auto simp: OnRevealKeys_def quiet_def withLock_Ok split: sum.splits option.splits)

lemma OnProcessesStart_frame:
  assumes "OnProcessesStart pids idx = Ok idx'" "txBound idx"
  shows "persisted idx' = persisted idx \<and> txBound idx' \<and> \<not> blockMu idx'"
  using assms by (auto simp: OnProcessesStart_def withLock_Ok)

text \<open>No call on the event sink changes the persisted state, and each leaves the lock
  free and the prepared queries bound to the open transaction.\<close>

lemma eventSink_frame:
  assumes "eventSink e idx = Ok idx'" "quiet idx"
  shows "persisted idx' = persisted idx \<and> quiet idx'"
proof (cases e)
  case (EvRevealKeys pid)
  with assms show ?thesis using OnRevealKeys_frame by simp
next
  case (EvProcess pid)
  with assms show ?thesis using OnProcess_frame by (simp add: quiet_def)
next
  case (EvVote v t)
  with assms show ?thesis using OnVote_frame by (simp add: quiet_def)
next
  case (EvProcessesStart pids)
  with assms show ?thesis using OnProcessesStart_frame by (simp add: quiet_def)
next
  case (EvSetAccount a acc)
  with assms show ?thesis using OnSetAccount_frame by (simp add: quiet_def)
next
  case (EvTransferTokens tx)
  with assms show ?thesis using OnTransferTokens_frame by (simp add: quiet_def)
next
  case (EvSpendTokens a t c r)
  with assms show ?thesis using OnSpendTokens_frame by (simp add: quiet_def)
qed (use assms mark_frame in \<open>simp_all add: quiet_def OnCancel_def OnProcessKeys_def
      OnProcessStatusChange_def OnProcessDurationChange_def OnProcessResults_def OnCensusUpdate_def\<close>)

lemma eventSinks_frame:
  assumes "eventSinks es idx = Ok idx'" "quiet idx"
  shows "persisted idx' = persisted idx \<and> quiet idx'"
  using assms
proof (induction es arbitrary: idx)
  case Nil
  then show ?case by simp
next
  case (Cons e es)
  from Cons.prems(1) obtain i where a: "eventSink e idx = Ok i" and b: "eventSinks es i = Ok idx'"
    by (auto simp: rbind_Ok)
  from eventSink_frame[OF a Cons.prems(2)] Cons.IH[OF b] show ?case by simp
qed

lemma Rollback_Ok:
  assumes "\<not> blockMu idx"
  shows "\<exists>idx'. Rollback idx = Ok idx' \<and> votePool idx' = Map.empty \<and>
          blockUpdateProcs idx' = Map.empty \<and> blockUpdateProcVoteCounts idx' = Map.empty \<and>
          blockTx idx' = None \<and> persisted idx' = persisted idx"
  using assms
  by (auto simp: Rollback_def withLock_def rbind_def Let_def logErr_def logw_def persisted_def
      split: option.splits)

lemma exEventSinks: "eventSinks exEvents exIdx = Ok exIdxBlock"
  by (simp add: sink_defs ex_defs exEvents_def exIdxBlock_def)

text \<open>
  C4. With the block lock free, \<open>Rollback\<close> returns, and after it all three
  block-scratch maps (the vote pool, the update-process set, the vote-count-dirty
  set) are empty, the transaction handle is nil, and the open transaction, if any, is
  rolled back: what it wrote is not in the persisted state. Consequently a \<open>Rollback\<close>
  right after any sequence of event-sink calls of a block that returned leaves the
  persisted state equal to the state before the first call of that block (\<open>idx0\<close>, in
  which the lock is free and the prepared queries follow the transaction, as they do
  when no transaction is open).
\<close>

theorem Rollback_discards_block:
  "(\<not> blockMu idx \<longrightarrow>
      (\<exists>idx'. Rollback idx = Ok idx' \<and> votePool idx' = Map.empty \<and>
         blockUpdateProcs idx' = Map.empty \<and> blockUpdateProcVoteCounts idx' = Map.empty \<and>
         blockTx idx' = None \<and> persisted idx' = persisted idx)) \<and>
   (txBound idx0 \<and> \<not> blockMu idx0 \<and> eventSinks es idx0 = Ok idx1 \<longrightarrow>
      (\<exists>idx2. Rollback idx1 = Ok idx2 \<and> votePool idx2 = Map.empty \<and>
         blockUpdateProcs idx2 = Map.empty \<and> blockUpdateProcVoteCounts idx2 = Map.empty \<and>
         blockTx idx2 = None \<and> persisted idx2 = persisted idx0))"
proof (intro conjI impI)
  assume "\<not> blockMu idx"
  from Rollback_Ok[OF this]
  show "\<exists>idx'. Rollback idx = Ok idx' \<and> votePool idx' = Map.empty \<and>
         blockUpdateProcs idx' = Map.empty \<and> blockUpdateProcVoteCounts idx' = Map.empty \<and>
         blockTx idx' = None \<and> persisted idx' = persisted idx"
    by blast
next
  assume a: "txBound idx0 \<and> \<not> blockMu idx0 \<and> eventSinks es idx0 = Ok idx1"
  then have "quiet idx0" by (simp add: quiet_def)
  with a eventSinks_frame have b: "persisted idx1 = persisted idx0 \<and> quiet idx1" by blast
  then have "\<not> blockMu idx1" by (simp add: quiet_def)
  from Rollback_Ok[OF this] b
  show "\<exists>idx2. Rollback idx1 = Ok idx2 \<and> votePool idx2 = Map.empty \<and>
         blockUpdateProcs idx2 = Map.empty \<and> blockUpdateProcVoteCounts idx2 = Map.empty \<and>
         blockTx idx2 = None \<and> persisted idx2 = persisted idx0"
    by auto
qed

theorem Rollback_discards_block_witness:
  "txBound exIdx \<and> \<not> blockMu exIdx \<and> persisted exIdx = Some [] \<and>
   eventSinks exEvents exIdx = Ok exIdxBlock \<and> \<not> blockMu exIdxBlock \<and>
   map_option pending (blockTx exIdxBlock) =
     Some [CreateProcess ''P2'', CreateVote ''N1'' ''P'' 3 0 5 0 [] [] ''a'', CreateAccount ''acct'' 100 1] \<and>
   (\<exists>idx2. Rollback exIdxBlock = Ok idx2 \<and> votePool idx2 = Map.empty \<and>
      blockUpdateProcs idx2 = Map.empty \<and> blockUpdateProcVoteCounts idx2 = Map.empty \<and>
      blockTx idx2 = None \<and> persisted idx2 = Some [])"
proof -
  have h: "txBound exIdx \<and> \<not> blockMu exIdx \<and> eventSinks exEvents exIdx = Ok exIdxBlock"
    using exEventSinks by (simp add: txBound_def exIdx_def)
  have p: "persisted exIdx = Some []"
    by (simp add: persisted_def exIdx_def exDB_def)
  have q: "map_option pending (blockTx exIdxBlock) =
     Some [CreateProcess ''P2'', CreateVote ''N1'' ''P'' 3 0 5 0 [] [] ''a'', CreateAccount ''acct'' 100 1]"
    by (simp add: exIdxBlock_def)
  have n: "\<not> blockMu exIdxBlock"
    by (simp add: exIdxBlock_def exIdx_def)
  from Rollback_discards_block [of exIdxBlock exIdx exEvents exIdxBlock] h p q n
  show ?thesis by simp
qed

subsection \<open>blockTxQueries\<close>



subsection \<open>RestoreBackup\<close>







subsection \<open>The query surface\<close>

text \<open>
  C7. For every listing operation (\<open>TokenFeesList\<close>, \<open>TokenTransfersList\<close>,
  \<open>AccountList\<close>), if \<open>offset < 0\<close> or \<open>limit \<le> 0\<close> the call returns a bad-input error
  at once, with the nil page and count 0, and without querying storage: the result is
  the same for every indexer, whatever its read-only queries answer, also for one
  whose store was never opened (where any query would panic).
\<close>

theorem listings_reject_bad_input:
  assumes "offset <s 0 \<or> limit \<le>s 0"
  shows "TokenFeesList limit offset txType reference fromAccount idx =
           Ok (None, 0, Some (if offset <s 0 then InvalidOffset offset else InvalidLimit limit)) \<and>
         TokenTransfersList limit offset fromOrToAccount fromAccount toAccount idx =
           Ok (None, 0, Some (if offset <s 0 then InvalidOffset offset else InvalidLimit limit)) \<and>
         AccountList limit offset accountID idx =
           Ok (None, 0, Some (if offset <s 0 then InvalidOffset offset else InvalidLimit limit))"
proof (cases "offset <s 0")
  case True
  then show ?thesis
    by (simp add: TokenFeesList_def TokenTransfersList_def AccountList_def)
next
  case False
  with assms have "limit \<le>s 0" by simp
  with False show ?thesis
    by (simp add: TokenFeesList_def TokenTransfersList_def AccountList_def)
qed

theorem listings_reject_bad_input_witness:
  "(-1 :: 64 word) <s 0 \<and> (0 :: 64 word) \<le>s 0 \<and>
   TokenFeesList 10 (-1) [] [] [] exIdx = Ok (None, 0, Some (InvalidOffset (-1))) \<and>
   TokenTransfersList 0 0 [] [] [] exIdx = Ok (None, 0, Some (InvalidLimit 0)) \<and>
   AccountList 0 0 [] exIdxUnopened = Ok (None, 0, Some (InvalidLimit 0)) \<and>
   AccountList 10 0 [] exIdxUnopened = Panic ''invalid memory address or nil pointer dereference''"
proof -
  have a: "(-1 :: 64 word) <s 0 \<or> (10 :: 64 word) \<le>s 0" by (simp add: word_sless_alt)
  have b: "(0 :: 64 word) <s 0 \<or> (0 :: 64 word) \<le>s 0" by (simp add: word_sle_eq)
  have c: "(-1 :: 64 word) <s 0" "\<not> (0 :: 64 word) <s 0" "(0 :: 64 word) \<le>s 0"
    "\<not> (10 :: 64 word) \<le>s 0"
    by (simp_all add: word_sless_alt word_sle_eq)
  have d: "AccountList 10 0 [] exIdxUnopened = Panic ''invalid memory address or nil pointer dereference''"
    using c by (simp add: AccountList_def exIdxUnopened_def)
  from listings_reject_bad_input [OF a, of "[]" "[]" "[]" exIdx]
       listings_reject_bad_input [OF b, of "[]" "[]" "[]" exIdx]
       listings_reject_bad_input [OF b, of "[]" "[]" "[]" exIdxUnopened]
       c d
  show ?thesis by simp
qed

text \<open>
  C8. For every input string whose length differs from the full hex address width (40
  characters), \<open>AccountExists\<close> returns false without consulting the database (the
  indexer, log included, is returned as it was, whatever its queries would answer);
  only a full-width id can ever yield true.
\<close>

theorem AccountExists_full_width:
  "(length accountID \<noteq> 40 \<longrightarrow> AccountExists accountID idx = Ok (False, idx)) \<and>
   (AccountExists accountID idx = Ok (True, idx') \<longrightarrow> length accountID = 40)"
proof (intro conjI impI)
  show "AccountExists accountID idx = Ok (False, idx)" if "length accountID \<noteq> 40"
    using that by (simp add: AccountExists_def)
  show "length accountID = 40" if "AccountExists accountID idx = Ok (True, idx')"
  proof (rule ccontr)
    assume "length accountID \<noteq> 40"
    then have "AccountExists accountID idx = Ok (False, idx)" by (simp add: AccountExists_def)
    with that show False by simp
  qed
qed

lemma exAccountExists:
  "AccountExists exAddress exIdx = Ok (True, exIdx)"
  by (simp add: AccountExists_def AccountList_def exIdx_def exReadQueries_def pageRows_def
      exAccountRows_def Let_def exAddress_def rbind_def word_sless_alt word_sle_eq)

theorem AccountExists_full_width_witness:
  "length ''0123456789abcdef'' \<noteq> 40 \<and>
   AccountExists ''0123456789abcdef'' exIdx = Ok (False, exIdx) \<and>
   AccountExists ''0123456789abcdef'' exIdxUnopened = Ok (False, exIdxUnopened) \<and>
   AccountExists exAddress exIdx = Ok (True, exIdx) \<and> length exAddress = 40"
proof -
  have a: "length ''0123456789abcdef'' \<noteq> 40" by simp
  from AccountExists_full_width [of "''0123456789abcdef''" exIdx]
       AccountExists_full_width [of "''0123456789abcdef''" exIdxUnopened]
       AccountExists_full_width [of exAddress exIdx exIdx]
       a exAccountExists
  show ?thesis by simp
qed

text \<open>
  C10. For every listing operation, when the returned page is empty the returned
  total count is 0 and the error is nil; and the page is empty, with count 0,
  whenever the store answers the query with no rows, for example because the offset
  is at least the number of matching rows, although rows that match exist: the total
  count is read from the first row of the answer only.
\<close>

theorem empty_page_zero_count:
  "(TokenFeesList limit offset txType reference fromAccount idx = Ok (Some [], n1, e1) \<longrightarrow>
      n1 = 0 \<and> e1 = None) \<and>
   (TokenTransfersList limit offset fromOrToAccount fromAccount toAccount idx = Ok (Some [], n2, e2) \<longrightarrow>
      n2 = 0 \<and> e2 = None) \<and>
   (AccountList limit offset accountID idx = Ok (Some [], n3, e3) \<longrightarrow> n3 = 0 \<and> e3 = None) \<and>
   (\<not> offset <s 0 \<and> \<not> limit \<le>s 0 \<and> readOnlyQuery idx = Some q \<longrightarrow>
      (SearchTokenFees q limit offset txType reference fromAccount = Inr [] \<longrightarrow>
         TokenFeesList limit offset txType reference fromAccount idx = Ok (Some [], 0, None)) \<and>
      (SearchTokenTransfers q limit offset fromOrToAccount fromAccount toAccount = Inr [] \<longrightarrow>
         TokenTransfersList limit offset fromOrToAccount fromAccount toAccount idx = Ok (Some [], 0, None)) \<and>
      (SearchAccounts q limit offset accountID = Inr [] \<longrightarrow>
         AccountList limit offset accountID idx = Ok (Some [], 0, None)))"
proof (intro conjI impI)
  show "n1 = 0" "e1 = None"
    if "TokenFeesList limit offset txType reference fromAccount idx = Ok (Some [], n1, e1)"
    using that
    by (auto simp: TokenFeesList_def Let_def split: if_splits option.splits sum.splits list.splits)
  show "n2 = 0" "e2 = None"
    if "TokenTransfersList limit offset fromOrToAccount fromAccount toAccount idx = Ok (Some [], n2, e2)"
    using that
    by (auto simp: TokenTransfersList_def Let_def split: if_splits option.splits sum.splits list.splits)
  show "n3 = 0" "e3 = None"
    if "AccountList limit offset accountID idx = Ok (Some [], n3, e3)"
    using that
    by (auto simp: AccountList_def Let_def split: if_splits option.splits sum.splits list.splits)
next
  assume v: "\<not> offset <s 0 \<and> \<not> limit \<le>s 0 \<and> readOnlyQuery idx = Some q"
  show "TokenFeesList limit offset txType reference fromAccount idx = Ok (Some [], 0, None)"
    if "SearchTokenFees q limit offset txType reference fromAccount = Inr []"
    using v that by (simp add: TokenFeesList_def)
  show "TokenTransfersList limit offset fromOrToAccount fromAccount toAccount idx = Ok (Some [], 0, None)"
    if "SearchTokenTransfers q limit offset fromOrToAccount fromAccount toAccount = Inr []"
    using v that by (simp add: TokenTransfersList_def)
  show "AccountList limit offset accountID idx = Ok (Some [], 0, None)"
    if "SearchAccounts q limit offset accountID = Inr []"
    using v that by (simp add: AccountList_def)
qed

lemma exAccountPages:
  "AccountList 10 0 [] exIdx =
     Ok (Some [\<lparr>amAddress = exAddress, amBalance = 100, amNonce = 1\<rparr>,
               \<lparr>amAddress = ''89abcdef0123456789abcdef0123456789abcdef'', amBalance = 100, amNonce = 1\<rparr>],
         2, None)"
  "SearchAccounts exReadQueries 10 5 [] = Inr []"
  by (simp_all add: AccountList_def exIdx_def exReadQueries_def pageRows_def exAccountRows_def
      Let_def word_sless_alt word_sle_eq)

theorem empty_page_zero_count_witness:
  "AccountList 10 0 [] exIdx =
     Ok (Some [\<lparr>amAddress = exAddress, amBalance = 100, amNonce = 1\<rparr>,
               \<lparr>amAddress = ''89abcdef0123456789abcdef0123456789abcdef'', amBalance = 100, amNonce = 1\<rparr>],
         2, None) \<and>
   \<not> (5 :: 64 word) <s 0 \<and> \<not> (10 :: 64 word) \<le>s 0 \<and> readOnlyQuery exIdx = Some exReadQueries \<and>
   SearchAccounts exReadQueries 10 5 [] = Inr [] \<and>
   AccountList 10 5 [] exIdx = Ok (Some [], 0, None) \<and>
   SearchTokenFees exReadQueries 10 5 [] [] [] = Inr [] \<and>
   TokenFeesList 10 5 [] [] [] exIdx = Ok (Some [], 0, None) \<and>
   SearchTokenTransfers exReadQueries 10 5 [] [] [] = Inr [] \<and>
   TokenTransfersList 10 5 [] [] [] exIdx = Ok (Some [], 0, None)"
proof -
  have w: "SearchTokenFees exReadQueries 10 5 [] [] [] = Inr []"
    "SearchTokenTransfers exReadQueries 10 5 [] [] [] = Inr []"
    by (simp_all add: exReadQueries_def pageRows_def exFeeRows_def exTransferRows_def)
  have v: "\<not> (5 :: 64 word) <s 0 \<and> \<not> (10 :: 64 word) \<le>s 0 \<and> readOnlyQuery exIdx = Some exReadQueries"
    by (simp add: word_sless_alt word_sle_eq exIdx_def)
  from empty_page_zero_count [where limit = 10 and offset = 5 and accountID = "[]" and idx = exIdx
         and q = exReadQueries and txType = "[]" and reference = "[]" and fromAccount = "[]"
         and fromOrToAccount = "[]" and toAccount = "[]"]
       v exAccountPages w
  show ?thesis by simp
qed

subsection \<open>ReindexBlocks and a stored hash that differs\<close>

text \<open>The sibling path of the same loop: a transaction that cannot be unmarshalled is
  logged and the loop goes on with the next index.\<close>

lemma reindexTxs_continues_on_unmarshal_error:
  assumes "readOnlyQuery idx = Some q"
    and "GetTransactionByHeightAndIndex q (bHeight b) (of_nat index) = Inl e"
    and "unmarshal tx (bChainID b) = Inl e'"
  shows "reindexTxs hashOf unmarshal ix b index (tx # txs) idx =
         reindexTxs hashOf unmarshal ix b (Suc index) txs (logw ErrorLvl ''cannot unmarshal tx'' idx)"
  using assms by simp

text \<open>
  C9 (what the code does). During \<open>ReindexBlocks\<close>, when the transaction at (block
  height, block index) is already stored with a hash that differs from the block
  store's, the mismatch is logged, the row is left untouched and no panic is raised,
  but the loop over the block's transactions is left at once: the result does not
  depend on the transactions after it, none of which is looked up, unmarshalled or
  indexed. The claim says that only that row is skipped and that reindexing continues
  with the remaining transactions.
\<close>

theorem reindexTxs_returns_on_hash_mismatch:
  assumes "readOnlyQuery idx = Some q"
    and "GetTransactionByHeightAndIndex q (bHeight b) (of_nat index) = Inr row"
    and "trHash row \<noteq> hashOf tx"
  shows "reindexTxs hashOf unmarshal ix b index (tx # txs) idx =
           Ok (logw ErrorLvl
                 ''while reindexing txs, tx hash in db differs from blockstore, leaving untouched'' idx) \<and>
         reindexTxs hashOf unmarshal ix b index (tx # txs) idx =
           reindexTxs hashOf unmarshal ix b index [tx] idx"
  using assms by simp

text \<open>
  The block at height 5 holds \<open>tx0\<close> and \<open>tx1\<close>; the index holds a row for (5, 0) with
  another hash and no row for (5, 1). Reindexing the block logs the mismatch and
  returns with no transaction begun: \<open>tx1\<close> is not indexed. The same two transactions
  at height 6, where the index holds nothing, are both indexed.
\<close>

theorem reindexTxs_returns_on_hash_mismatch_witness:
  "readOnlyQuery (exIdx\<lparr>blockMu := True\<rparr>) = Some exReadQueries \<and>
   GetTransactionByHeightAndIndex exReadQueries 5 0 = Inr \<lparr>trHash = ''stale''\<rparr> \<and>
   GetTransactionByHeightAndIndex exReadQueries 5 1 = Inl ''sql: no rows in result set'' \<and>
   reindexBlockTxs exHash exUnmarshal indexTx exBlock (exIdx\<lparr>blockMu := True\<rparr>) =
     Ok (exIdx\<lparr>blockMu := True,
               logs := [(ErrorLvl,
                 ''while reindexing txs, tx hash in db differs from blockstore, leaving untouched'')]\<rparr>) \<and>
   reindexBlockTxs exHash exUnmarshal indexTx (exBlock\<lparr>bHeight := 6\<rparr>) (exIdx\<lparr>blockMu := True\<rparr>) =
     Ok (exIdx\<lparr>blockMu := True, readWriteDB := Some (exDB\<lparr>nextTxId := 1\<rparr>),
               blockTx := Some \<lparr>txId = 0,
                 pending = [CreateTransaction ''hash-tx0'' 6 0, CreateTransaction ''hash-tx1'' 6 1],
                 rollbackErr = None\<rparr>,
               blockQueries := Some \<lparr>boundTo = OnTx 0\<rparr>\<rparr>)"
proof -
  have a: "readOnlyQuery (exIdx\<lparr>blockMu := True\<rparr>) = Some exReadQueries"
    by (simp add: exIdx_def)
  have b: "GetTransactionByHeightAndIndex exReadQueries (bHeight exBlock) (of_nat 0) = Inr \<lparr>trHash = ''stale''\<rparr>"
    by (simp add: exReadQueries_def exBlock_def)
  have c: "trHash \<lparr>trHash = ''stale''\<rparr> \<noteq> exHash ''tx0''"
    by (simp add: exHash_def)
  have d: "GetTransactionByHeightAndIndex exReadQueries 5 1 = Inl ''sql: no rows in result set''"
    by (simp add: exReadQueries_def)
  have e: "reindexBlockTxs exHash exUnmarshal indexTx (exBlock\<lparr>bHeight := 6\<rparr>) (exIdx\<lparr>blockMu := True\<rparr>) =
     Ok (exIdx\<lparr>blockMu := True, readWriteDB := Some (exDB\<lparr>nextTxId := 1\<rparr>),
               blockTx := Some \<lparr>txId = 0,
                 pending = [CreateTransaction ''hash-tx0'' 6 0, CreateTransaction ''hash-tx1'' 6 1],
                 rollbackErr = None\<rparr>,
               blockQueries := Some \<lparr>boundTo = OnTx 0\<rparr>\<rparr>)"
    by (simp add: reindexBlockTxs_def exBlock_def exIdx_def exReadQueries_def exHash_def
        exUnmarshal_def indexTx_def sink_defs exDB_def)
  from reindexTxs_returns_on_hash_mismatch [where idx = "exIdx\<lparr>blockMu := True\<rparr>" and q = exReadQueries
         and b = exBlock and index = 0 and row = "\<lparr>trHash = ''stale''\<rparr>" and hashOf = exHash
         and tx = "''tx0''" and unmarshal = exUnmarshal and ix = indexTx and txs = "[''tx1'']", OF a b c]
       a b d e
  show ?thesis
    by (simp add: reindexBlockTxs_def exBlock_def logw_def exIdx_def)
qed

end
